theory Spec2Isabelle
  imports Complex_Main "HOL-Library.AList"
begin

section \<open>The Home Assistant WebSocket client (\<^verbatim>\<open>websocket_client.py\<close>)\<close>

text \<open>
  A shallow embedding of the class \<^verbatim>\<open>HomeAssistantWebSocket\<close>. The object's
  attributes are the fields of a record; every method is a function from the object
  (and what the environment hands to the method) to a result and the updated object.
  A method that awaits is cut at its await points: the part before the await and the
  part that runs when the awaited thing arrives are separate functions. Exceptions are
  values. What the libraries do (the JSON parser, the socket, asyncio's futures and
  tasks) is modelled by the small definitions of the first subsections.
\<close>

subsection \<open>Decoded JSON values\<close>

text \<open>
  What \<^verbatim>\<open>json.loads\<close> returns. A number without fraction or exponent is a Python
  \<^verbatim>\<open>int\<close>; any other number is a \<^verbatim>\<open>float\<close>, given here by its exact value (every
  finite float is a rational), or one of the three non-finite floats. Python's
  \<^verbatim>\<open>None\<close> is \<open>JNull\<close>. An object is a list of key-value pairs read with \<open>map_of\<close>.
\<close>

datatype pyfloat = Finite rat | PosInf | NegInf | NaN

datatype json =
    JNull
  | JBool bool
  | JInt int
  | JFloat pyfloat
  | JStr string
  | JArr "json list"
  | JObj "(string \<times> json) list"

text \<open>An inbound text frame, as \<^verbatim>\<open>json.loads\<close> sees it: it raises, or returns a value.\<close>

datatype frame = Malformed | Decoded json

text \<open>\<^verbatim>\<open>d.get(k)\<close> on a dict: the value, or \<^verbatim>\<open>None\<close> when the key is absent.\<close>

definition dict_get :: "(string \<times> json) list \<Rightarrow> string \<Rightarrow> json" where
  "dict_get d k = (case map_of d k of None \<Rightarrow> JNull | Some v \<Rightarrow> v)"

text \<open>Python's truth value of a decoded value (\<^verbatim>\<open>if data.get("success")\<close>).\<close>

fun truthy :: "json \<Rightarrow> bool" where
  "truthy JNull = False"
| "truthy (JBool b) = b"
| "truthy (JInt n) = (n \<noteq> 0)"
| "truthy (JFloat (Finite q)) = (q \<noteq> 0)"
| "truthy (JFloat _) = True"
| "truthy (JStr s) = (s \<noteq> [])"
| "truthy (JArr xs) = (xs \<noteq> [])"
| "truthy (JObj d) = (d \<noteq> [])"

text \<open>
  Both dictionaries of the client have \<^verbatim>\<open>int\<close> keys. Looking a decoded value up in
  such a dictionary first hashes it: a list or a dict is unhashable and the lookup
  raises \<^verbatim>\<open>TypeError\<close>. A hashable value finds the key it compares equal to:
  \<^verbatim>\<open>True == 1\<close>, \<^verbatim>\<open>False == 0\<close>, \<^verbatim>\<open>1.0 == 1\<close>; \<^verbatim>\<open>None\<close> and strings equal no \<^verbatim>\<open>int\<close>.
\<close>

fun hashable :: "json \<Rightarrow> bool" where
  "hashable (JArr _) = False"
| "hashable (JObj _) = False"
| "hashable _ = True"

fun as_int_key :: "json \<Rightarrow> int option" where
  "as_int_key (JInt n) = Some n"
| "as_int_key (JBool b) = Some (if b then 1 else 0)"
| "as_int_key (JFloat (Finite q)) = (if of_int \<lfloor>q\<rfloor> = q then Some \<lfloor>q\<rfloor> else None)"
| "as_int_key _ = None"

subsection \<open>Exceptions, futures, callbacks, log records\<close>

text \<open>
  \<open>Exception msg arg\<close> is the plain \<^verbatim>\<open>Exception\<close> this module raises itself, with the
  literal part of its message and the value formatted into it. The others are raised
  by the libraries. \<^verbatim>\<open>CancelledError\<close> and \<open>OtherBaseException\<close> (\<^verbatim>\<open>KeyboardInterrupt\<close>,
  \<^verbatim>\<open>SystemExit\<close>) are not subclasses of \<^verbatim>\<open>Exception\<close>.
\<close>

datatype py_error =
    Exception string "json option"
  | JSONDecodeError
  | AttributeError
  | TypeError
  | InvalidStateError
  | TransportError string
  | OtherException string
  | CancelledError
  | OtherBaseException string

fun is_Exception :: "py_error \<Rightarrow> bool" where
  "is_Exception CancelledError = False"
| "is_Exception (OtherBaseException _) = False"
| "is_Exception _ = True"

text \<open>An \<^verbatim>\<open>asyncio.Future\<close> object.\<close>

datatype future = Pending | Result json | Failed py_error | Cancelled

fun is_done :: "future \<Rightarrow> bool" where
  "is_done Pending = False"
| "is_done _ = True"

text \<open>
  A callback handed to \<^verbatim>\<open>subscribe_events\<close>: whether it is a coroutine function,
  and what calling it on the event data does (\<open>None\<close>: it returns; \<open>Some e\<close>: it raises).
\<close>

datatype callback = Callback (is_coroutine: bool) (call: "json \<Rightarrow> py_error option")

datatype level = DEBUG | INFO | WARNING | ERROR

datatype log_arg = ArgNone | ArgStr string | ArgInt int | ArgJson json | ArgError py_error

type_synonym log_record = "level \<times> string \<times> log_arg"

subsection \<open>The client object\<close>

datatype ConnectionState = DISCONNECTED | CONNECTING | AUTHENTICATING | CONNECTED | RECONNECTING

datatype socket = Open | Closed

datatype task = Running | Finished

text \<open>
  The first eight fields are the attributes set by \<^verbatim>\<open>__init__\<close>; \<open>pending_requests\<close>
  and \<open>event_callbacks\<close> are dictionaries in insertion order, \<open>pending_requests\<close> holding
  references into \<open>futures\<close>. The last four are the world the object acts on: the heap
  of \<^verbatim>\<open>Future\<close> objects (a reference is an index), the frames written to the socket, the
  callback tasks handed to \<^verbatim>\<open>asyncio.create_task\<close>, and the records given to the logger.
\<close>

record client =
  url :: string
  token :: string
  state :: ConnectionState
  websocket :: "socket option"
  message_id :: int
  pending_requests :: "(int \<times> nat) list"
  event_callbacks :: "(int \<times> callback) list"
  receive_task :: "task option"
  futures :: "future list"
  sent :: "json list"
  tasks :: "(callback \<times> json) list"
  logged :: "log_record list"

definition init :: "string \<Rightarrow> string \<Rightarrow> client" where
  "init u t = \<lparr> url = u, token = t, state = DISCONNECTED, websocket = None,
     message_id = 0, pending_requests = [], event_callbacks = [], receive_task = None,
     futures = [], sent = [], tasks = [], logged = [] \<rparr>"

definition logger :: "level \<Rightarrow> string \<Rightarrow> log_arg \<Rightarrow> client \<Rightarrow> client" where
  "logger lv msg arg c = c\<lparr>logged := logged c @ [(lv, msg, arg)]\<rparr>"

text \<open>
  \<^verbatim>\<open>await self._websocket.send(json.dumps(m))\<close>: without a socket object the attribute
  access raises; a closed socket raises the library's \<^verbatim>\<open>ConnectionClosed\<close>.
\<close>

definition ws_send :: "json \<Rightarrow> client \<Rightarrow> py_error option \<times> client" where
  "ws_send m c =
     (case websocket c of
        None \<Rightarrow> (Some AttributeError, c)
      | Some Closed \<Rightarrow> (Some (TransportError ''ConnectionClosed''), c)
      | Some Open \<Rightarrow> (None, c\<lparr>sent := sent c @ [m]\<rparr>))"

text \<open>
  \<^verbatim>\<open>future.set_result\<close>, \<^verbatim>\<open>future.set_exception\<close> and \<^verbatim>\<open>future.cancel\<close> on the future
  at reference \<open>r\<close>. Setting a future that is already done raises
  \<^verbatim>\<open>InvalidStateError\<close>; cancelling one is a no-op. A reference always points into
  the heap in Python; outside it the model changes nothing.
\<close>

definition future_at :: "client \<Rightarrow> nat \<Rightarrow> future option" where
  "future_at c r = (if r < length (futures c) then Some (futures c ! r) else None)"

definition resolve_future :: "nat \<Rightarrow> future \<Rightarrow> client \<Rightarrow> py_error option \<times> client" where
  "resolve_future r v c =
     (if future_at c r = Some Pending then (None, c\<lparr>futures := (futures c)[r := v]\<rparr>)
      else (Some InvalidStateError, c))"

definition cancel_future :: "nat \<Rightarrow> client \<Rightarrow> client" where
  "cancel_future r c =
     (if future_at c r = Some Pending then c\<lparr>futures := (futures c)[r := Cancelled]\<rparr> else c)"

text \<open>\<^verbatim>\<open>asyncio.Future()\<close>: a new pending future; its reference is returned.\<close>

definition new_future :: "client \<Rightarrow> nat \<times> client" where
  "new_future c = (length (futures c), c\<lparr>futures := futures c @ [Pending]\<rparr>)"

text \<open>
  \<^verbatim>\<open>k in d\<close> followed by \<^verbatim>\<open>d[k]\<close>, and \<^verbatim>\<open>d.pop(k)\<close>, for a decoded value \<open>k\<close> and
  a dictionary with \<^verbatim>\<open>int\<close> keys: \<open>Inr None\<close> when \<open>k\<close> is not in \<open>d\<close>.
\<close>

definition dict_lookup :: "(int \<times> 'v) list \<Rightarrow> json \<Rightarrow> 'v option" where
  "dict_lookup d k = (case as_int_key k of None \<Rightarrow> None | Some i \<Rightarrow> map_of d i)"

definition dict_find :: "(int \<times> 'v) list \<Rightarrow> json \<Rightarrow> py_error + 'v option" where
  "dict_find d k = (if \<not> hashable k then Inl TypeError else Inr (dict_lookup d k))"

definition dict_pop :: "(int \<times> 'v) list \<Rightarrow> json \<Rightarrow> (int \<times> 'v) list" where
  "dict_pop d k = (case as_int_key k of None \<Rightarrow> d | Some i \<Rightarrow> AList.delete i d)"

subsection \<open>\<^verbatim>\<open>connect\<close>\<close>

text \<open>
  What the network does during one call of \<^verbatim>\<open>connect\<close>: whether
  \<^verbatim>\<open>websockets.connect\<close> raises, what the two \<^verbatim>\<open>recv\<close> calls give, and whether sending
  the credential raises.
\<close>

record handshake =
  ws_connect :: "py_error option"
  first_recv :: "py_error + frame"
  auth_send :: "py_error option"
  second_recv :: "py_error + frame"

text \<open>
  The \<^verbatim>\<open>except Exception\<close> clause of \<^verbatim>\<open>connect\<close>; an error that is not an
  \<^verbatim>\<open>Exception\<close> leaves the method (\<open>Inl\<close>).
\<close>

definition connect_failed :: "py_error \<Rightarrow> client \<Rightarrow> (py_error + bool) \<times> client" where
  "connect_failed e c =
     (if is_Exception e
      then (Inr False, (logger ERROR ''Connection failed: '' (ArgError e) c)\<lparr>state := DISCONNECTED\<rparr>)
      else (Inl e, c))"

text \<open>\<^verbatim>\<open>json.loads(await self._websocket.recv())\<close>.\<close>

definition recv_json :: "py_error + frame \<Rightarrow> py_error + json" where
  "recv_json r =
     (case r of Inl e \<Rightarrow> Inl e | Inr Malformed \<Rightarrow> Inl JSONDecodeError | Inr (Decoded j) \<Rightarrow> Inr j)"

text \<open>\<^verbatim>\<open>msg.get("type")\<close>, which raises on anything but a dict.\<close>

definition get_type :: "json \<Rightarrow> py_error + json" where
  "get_type j = (case j of JObj d \<Rightarrow> Inr (dict_get d ''type'') | _ \<Rightarrow> Inl AttributeError)"

text \<open>Steps 3 to 5 of \<^verbatim>\<open>connect\<close>, after the auth challenge was received.\<close>

definition connect_authenticate :: "handshake \<Rightarrow> client \<Rightarrow> (py_error + bool) \<times> client" where
  "connect_authenticate env c =
     (let c1 = c\<lparr>state := AUTHENTICATING\<rparr> in
      case auth_send env of
        Some e \<Rightarrow> connect_failed e c1
      | None \<Rightarrow>
         (let c2 = c1\<lparr>sent := sent c1 @
                     [JObj [(''type'', JStr ''auth''), (''access_token'', JStr (token c1))]]\<rparr> in
          case recv_json (second_recv env) of
            Inl e \<Rightarrow> connect_failed e c2
          | Inr auth_response \<Rightarrow>
             (case get_type auth_response of
                Inl e \<Rightarrow> connect_failed e c2
              | Inr ty \<Rightarrow>
                 if ty \<noteq> JStr ''auth_ok''
                 then connect_failed (Exception ''Authentication failed: '' (Some auth_response)) c2
                 else (Inr True,
                       (logger INFO ''Authentication successful'' ArgNone c2)
                         \<lparr>state := CONNECTED, receive_task := Some Running\<rparr>))))"

definition connect :: "handshake \<Rightarrow> client \<Rightarrow> (py_error + bool) \<times> client" where
  "connect env c =
     (let c1 = logger INFO ''Connecting to '' (ArgStr (url c)) (c\<lparr>state := CONNECTING\<rparr>) in
      case ws_connect env of
        Some e \<Rightarrow> connect_failed e c1
      | None \<Rightarrow>
         (let c2 = logger INFO ''WebSocket connection established'' ArgNone
                     (c1\<lparr>websocket := Some Open\<rparr>) in
          case recv_json (first_recv env) of
            Inl e \<Rightarrow> connect_failed e c2
          | Inr auth_msg \<Rightarrow>
             (case get_type auth_msg of
                Inl e \<Rightarrow> connect_failed e c2
              | Inr ty \<Rightarrow>
                 if ty \<noteq> JStr ''auth_required''
                 then connect_failed (Exception ''Expected auth_required, got: '' (Some auth_msg)) c2
                 else connect_authenticate env
                        (logger INFO ''Received auth challenge'' ArgNone c2))))"

subsection \<open>\<^verbatim>\<open>_receive_loop\<close> and \<^verbatim>\<open>_safe_callback\<close>\<close>

text \<open>The branch \<^verbatim>\<open>msg_type == "result"\<close> of the loop body.\<close>

definition handle_result :: "(string \<times> json) list \<Rightarrow> client \<Rightarrow> py_error option \<times> client" where
  "handle_result d c =
     (let msg_id = dict_get d ''id'' in
      case dict_find (pending_requests c) msg_id of
        Inl e \<Rightarrow> (Some e, c)
      | Inr None \<Rightarrow> (None, c)
      | Inr (Some fut) \<Rightarrow>
         (let c1 = c\<lparr>pending_requests := dict_pop (pending_requests c) msg_id\<rparr> in
          if truthy (dict_get d ''success'')
          then resolve_future fut (Result (dict_get d ''result'')) c1
          else resolve_future fut (Failed (Exception [] (Some (dict_get d ''error'')))) c1))"

text \<open>The branch \<^verbatim>\<open>msg_type == "event"\<close>: the callback is started as a task of its own.\<close>

definition handle_event :: "(string \<times> json) list \<Rightarrow> client \<Rightarrow> py_error option \<times> client" where
  "handle_event d c =
     (let msg_id = dict_get d ''id'' in
      case dict_find (event_callbacks c) msg_id of
        Inl e \<Rightarrow> (Some e, c)
      | Inr None \<Rightarrow> (None, c)
      | Inr (Some cb) \<Rightarrow> (None, c\<lparr>tasks := tasks c @ [(cb, dict_get d ''event'')]\<rparr>))"

text \<open>
  One pass through the body of the \<^verbatim>\<open>async for\<close>: \<open>None\<close> when the body ran to its
  end, \<open>Some e\<close> when it raised \<open>e\<close>.
\<close>

definition process_message :: "frame \<Rightarrow> client \<Rightarrow> py_error option \<times> client" where
  "process_message m c =
     (case m of
        Malformed \<Rightarrow> (Some JSONDecodeError, c)
      | Decoded data \<Rightarrow>
         (let c1 = logger DEBUG ''Received: '' (ArgJson data) c in
          case data of
            JObj d \<Rightarrow>
             (let msg_type = dict_get d ''type'' in
              if msg_type = JStr ''result'' then handle_result d c1
              else if msg_type = JStr ''event'' then handle_event d c1
              else if msg_type = JStr ''pong'' then (None, c1)
              else (None, logger WARNING ''Unhandled message type: '' (ArgJson msg_type) c1))
          | _ \<Rightarrow> (Some AttributeError, c1)))"

text \<open>
  The two \<^verbatim>\<open>except\<close> clauses around the loop, and the end of the task. An error that
  neither clause catches ends the task as well.
\<close>

definition loop_except :: "py_error \<Rightarrow> client \<Rightarrow> client" where
  "loop_except e c =
     (if e = CancelledError then logger INFO ''Receive loop cancelled'' ArgNone c
      else if is_Exception e
      then (logger ERROR ''Receive loop error: '' (ArgError e) c)\<lparr>state := DISCONNECTED\<rparr>
      else c)"

text \<open>
  How the iteration over the socket stops: the iterator is exhausted (the peer closed
  the connection normally), or it raises (a connection error; \<^verbatim>\<open>CancelledError\<close>
  when the task is cancelled).
\<close>

datatype stream_end = Exhausted | Raised py_error

definition loop_finish :: "stream_end \<Rightarrow> client \<Rightarrow> client" where
  "loop_finish fin c =
     (case fin of
        Exhausted \<Rightarrow> c\<lparr>receive_task := Some Finished\<rparr>
      | Raised e \<Rightarrow> (loop_except e c)\<lparr>receive_task := Some Finished\<rparr>)"

text \<open>One iteration: the frame is processed; an exception leaves the loop.\<close>

definition loop_iteration :: "frame \<Rightarrow> client \<Rightarrow> client" where
  "loop_iteration m c =
     (case process_message m c of
        (None, c') \<Rightarrow> c'
      | (Some e, c') \<Rightarrow> loop_finish (Raised e) c')"

text \<open>The whole loop on the frames \<open>ms\<close>, after which the iteration stops with \<open>fin\<close>.\<close>

fun receive_loop :: "frame list \<Rightarrow> stream_end \<Rightarrow> client \<Rightarrow> client" where
  "receive_loop [] fin c = loop_finish fin c"
| "receive_loop (m # ms) fin c =
     (case process_message m c of
        (None, c') \<Rightarrow> receive_loop ms fin c'
      | (Some e, c') \<Rightarrow> loop_finish (Raised e) c')"

text \<open>
  \<^verbatim>\<open>_safe_callback\<close>, the body of a callback task. Both branches of the test for a
  coroutine function call the callback inside the \<^verbatim>\<open>try\<close>. \<open>Some e\<close>: the task ends
  with \<open>e\<close>, which \<^verbatim>\<open>except Exception\<close> did not catch.
\<close>

definition safe_callback :: "callback \<Rightarrow> json \<Rightarrow> client \<Rightarrow> py_error option \<times> client" where
  "safe_callback cb data c =
     (case (if is_coroutine cb then call cb data else call cb data) of
        None \<Rightarrow> (None, c)
      | Some e \<Rightarrow>
         if is_Exception e then (None, logger ERROR ''Callback error: '' (ArgError e) c)
         else (Some e, c))"

subsection \<open>\<^verbatim>\<open>_next_id\<close>, \<^verbatim>\<open>send_command\<close>, \<^verbatim>\<open>subscribe_events\<close>, \<^verbatim>\<open>ping\<close>, \<^verbatim>\<open>close\<close>\<close>

definition next_id :: "client \<Rightarrow> int \<times> client" where
  "next_id c = (message_id c + 1, c\<lparr>message_id := message_id c + 1\<rparr>)"

text \<open>The dict display \<^verbatim>\<open>{"id": msg_id, "type": command_type, **kwargs}\<close>.\<close>

definition build_message :: "int \<Rightarrow> string \<Rightarrow> (string \<times> json) list \<Rightarrow> (string \<times> json) list" where
  "build_message msg_id command_type kwargs =
     fold (\<lambda>(k, v). AList.update k v) kwargs [(''id'', JInt msg_id), (''type'', JStr command_type)]"

text \<open>
  \<^verbatim>\<open>send_command\<close> up to its await of the future. \<open>Inr (msg_id, fut)\<close>: the message is
  sent and the caller now waits for the future \<open>fut\<close>; \<open>Inl e\<close>: the call raised \<open>e\<close>.
\<close>

definition send_command ::
  "string \<Rightarrow> (string \<times> json) list \<Rightarrow> client \<Rightarrow> (py_error + int \<times> nat) \<times> client" where
  "send_command command_type kwargs c =
     (if state c \<noteq> CONNECTED then (Inl (Exception ''Not connected'' None), c)
      else
        case next_id c of (msg_id, c1) \<Rightarrow>
        case new_future c1 of (fut, c2) \<Rightarrow>
        (let message = JObj (build_message msg_id command_type kwargs);
             c3 = c2\<lparr>pending_requests := AList.update msg_id fut (pending_requests c2)\<rparr>;
             c4 = logger DEBUG ''Sending: '' (ArgJson message) c3
         in case ws_send message c4 of
              (Some e, c5) \<Rightarrow> (Inl e, c5)
            | (None, c5) \<Rightarrow> (Inr (msg_id, fut), c5)))"

text \<open>
  The wait \<^verbatim>\<open>await asyncio.wait_for(future, timeout=30.0)\<close> ends in one of three
  ways, and other tasks may run before the caller goes on.
  \<^item> The future is done: \<^verbatim>\<open>wait_for\<close> returns its result or raises its exception,
    \<^verbatim>\<open>CancelledError\<close> when it was cancelled. \<open>await_future\<close> is this outcome, \<open>None\<close>
    while the future is pending. Only \<^verbatim>\<open>TimeoutError\<close> is caught, so the outcome leaves
    \<^verbatim>\<open>send_command\<close> as it is and the table is not touched (\<open>send_command_finish\<close>).
  \<^item> The 30 seconds pass first: \<^verbatim>\<open>wait_for\<close> cancels the future
    (\<open>wait_for_timeout\<close>). When the caller is resumed later, \<^verbatim>\<open>TimeoutError\<close> reaches
    the \<^verbatim>\<open>except\<close> clause, which pops the identifier and raises
    (\<open>send_command_timed_out\<close>).
  \<^item> The caller is cancelled while it waits: \<^verbatim>\<open>wait_for\<close> cancels the future and
    \<^verbatim>\<open>CancelledError\<close> leaves \<^verbatim>\<open>send_command\<close>; nothing pops the identifier
    (\<open>wait_for_cancelled\<close>).
\<close>

definition await_future :: "nat \<Rightarrow> client \<Rightarrow> (py_error + json) option" where
  "await_future fut c =
     (case future_at c fut of
        Some (Result v) \<Rightarrow> Some (Inr v)
      | Some (Failed e) \<Rightarrow> Some (Inl e)
      | Some Cancelled \<Rightarrow> Some (Inl CancelledError)
      | _ \<Rightarrow> None)"

definition send_command_finish ::
  "string \<Rightarrow> int \<Rightarrow> nat \<Rightarrow> client \<Rightarrow> ((py_error + json) \<times> client) option" where
  "send_command_finish command_type msg_id fut c =
     (case await_future fut c of None \<Rightarrow> None | Some r \<Rightarrow> Some (r, c))"

definition wait_for_timeout :: "nat \<Rightarrow> client \<Rightarrow> client" where
  "wait_for_timeout fut c = cancel_future fut c"

definition send_command_timed_out ::
  "string \<Rightarrow> int \<Rightarrow> client \<Rightarrow> (py_error + json) \<times> client" where
  "send_command_timed_out command_type msg_id c =
     (Inl (Exception (''Command '' @ command_type @ '' timed out'') None),
      c\<lparr>pending_requests := AList.delete msg_id (pending_requests c)\<rparr>)"

definition wait_for_cancelled :: "nat \<Rightarrow> client \<Rightarrow> client" where
  "wait_for_cancelled fut c = cancel_future fut c"

text \<open>
  \<^verbatim>\<open>subscribe_events\<close>: the command it sends, and what it does once the wait in
  \<^verbatim>\<open>send_command\<close> has ended with the future done (\<open>None\<close> while it is pending): an
  exception passes through, a result is followed by the registration.
\<close>

definition subscribe_command :: "string option \<Rightarrow> (string \<times> json) list" where
  "subscribe_command event_type =
     (case event_type of
        None \<Rightarrow> []
      | Some t \<Rightarrow> if t \<noteq> [] then [(''event_type'', JStr t)] else [])"

definition subscribe_events_send ::
  "string option \<Rightarrow> client \<Rightarrow> (py_error + int \<times> nat) \<times> client" where
  "subscribe_events_send event_type c =
     send_command ''subscribe_events'' (subscribe_command event_type) c"

definition subscribe_events_register ::
  "string option \<Rightarrow> callback option \<Rightarrow> client \<Rightarrow> int \<times> client" where
  "subscribe_events_register event_type callback c =
     (case next_id c of (subscription_id, c1) \<Rightarrow>
        (let c2 = (case callback of
                     None \<Rightarrow> c1
                   | Some cb \<Rightarrow>
                      c1\<lparr>event_callbacks := AList.update subscription_id cb (event_callbacks c1)\<rparr>)
         in (subscription_id,
             logger INFO ''Subscribed to events, subscription_id='' (ArgInt subscription_id) c2)))"

definition subscribe_events_finish ::
  "string option \<Rightarrow> callback option \<Rightarrow> int \<Rightarrow> nat \<Rightarrow> client
     \<Rightarrow> ((py_error + int) \<times> client) option" where
  "subscribe_events_finish event_type callback msg_id fut c =
     (case send_command_finish ''subscribe_events'' msg_id fut c of
        None \<Rightarrow> None
      | Some (Inl e, c1) \<Rightarrow> Some (Inl e, c1)
      | Some (Inr result, c1) \<Rightarrow>
         (case subscribe_events_register event_type callback c1 of
            (subscription_id, c2) \<Rightarrow> Some (Inr subscription_id, c2)))"

definition ping :: "client \<Rightarrow> py_error option \<times> client" where
  "ping c =
     (case next_id c of (msg_id, c1) \<Rightarrow>
        ws_send (JObj [(''id'', JInt msg_id), (''type'', JStr ''ping'')]) c1)"

text \<open>
  \<^verbatim>\<open>close\<close>. A running receive task is cancelled and awaited: the loop, suspended in
  its \<^verbatim>\<open>async for\<close>, takes the \<^verbatim>\<open>except asyncio.CancelledError\<close> clause and ends.
\<close>

definition close :: "client \<Rightarrow> client" where
  "close c =
     (let c1 = logger INFO ''Closing connection'' ArgNone c;
          c2 = (case receive_task c1 of
                  Some Running \<Rightarrow> loop_finish (Raised CancelledError) c1
                | _ \<Rightarrow> c1);
          c3 = (case websocket c2 of None \<Rightarrow> c2 | Some _ \<Rightarrow> c2\<lparr>websocket := Some Closed\<rparr>);
          c4 = fold cancel_future (map snd (pending_requests c3)) c3;
          c5 = c4\<lparr>pending_requests := [], event_callbacks := [], state := DISCONNECTED\<rparr>
      in logger INFO ''Connection closed'' ArgNone c5)"

subsection \<open>Runs of one client\<close>

text \<open>
  The calls that are suspended in \<^verbatim>\<open>send_command\<close>: how the call goes on when it is
  resumed, the command type, the identifier and the future of the call. \<open>Plain\<close> is a
  \<^verbatim>\<open>send_command\<close> that waits for its future, \<open>Subscriber\<close> a \<^verbatim>\<open>subscribe_events\<close>
  (with its arguments) whose \<^verbatim>\<open>send_command\<close> waits for its future, and \<open>TimedOut\<close> a
  call whose \<^verbatim>\<open>wait_for\<close> has timed out and whose \<^verbatim>\<open>except\<close> clause has not run yet.
\<close>

datatype caller = Plain | Subscriber "string option" "callback option" | TimedOut

type_synonym waiting_call = "caller \<times> string \<times> int \<times> nat"

text \<open>
  What can happen next to a client. \<open>Expire n\<close>: the 30 seconds of the \<open>n\<close>-th
  suspended call pass while its future is pending. \<open>Wake n\<close>: the \<open>n\<close>-th suspended call
  is resumed, which needs its future to be done or its wait to have timed out.
  \<open>CancelCaller n\<close>: the task of the \<open>n\<close>-th suspended call is cancelled. \<open>Recv\<close> and
  \<open>StreamEnd\<close> are what the receive task meets; without a running receive task nobody
  reads the socket. When the iteration stops, the connection is closed. \<open>Connect\<close> is
  taken while no receive task runs.
\<close>

datatype event =
    Connect handshake
  | Recv frame
  | StreamEnd stream_end
  | SendCommand string "(string \<times> json) list"
  | SubscribeEvents "string option" "callback option"
  | Expire nat
  | Wake nat
  | CancelCaller nat
  | Ping
  | Close

definition suspend ::
  "caller \<Rightarrow> string \<Rightarrow> (py_error + int \<times> nat) \<times> client \<Rightarrow> waiting_call list \<Rightarrow> client \<times> waiting_call list" where
  "suspend who command_type r ws =
     (case r of
        (Inl e, c) \<Rightarrow> (c, ws)
      | (Inr (msg_id, fut), c) \<Rightarrow> (c, ws @ [(who, command_type, msg_id, fut)]))"

definition expire :: "waiting_call \<Rightarrow> client \<Rightarrow> (waiting_call \<times> client) option" where
  "expire w c =
     (case w of
        (who, command_type, msg_id, fut) \<Rightarrow>
          if who \<noteq> TimedOut \<and> future_at c fut = Some Pending
          then Some ((TimedOut, command_type, msg_id, fut), wait_for_timeout fut c)
          else None)"

definition resume :: "waiting_call \<Rightarrow> client \<Rightarrow> client option" where
  "resume w c =
     (case w of
        (Plain, command_type, msg_id, fut) \<Rightarrow>
          map_option snd (send_command_finish command_type msg_id fut c)
      | (Subscriber event_type callback, command_type, msg_id, fut) \<Rightarrow>
          map_option snd (subscribe_events_finish event_type callback msg_id fut c)
      | (TimedOut, command_type, msg_id, fut) \<Rightarrow>
          Some (snd (send_command_timed_out command_type msg_id c)))"

fun step :: "event \<Rightarrow> client \<times> waiting_call list \<Rightarrow> client \<times> waiting_call list" where
  "step (Connect env) (c, ws) =
     (if receive_task c = Some Running then (c, ws) else (snd (connect env c), ws))"
| "step (Recv m) (c, ws) =
     (if receive_task c = Some Running then (loop_iteration m c, ws) else (c, ws))"
| "step (StreamEnd fin) (c, ws) =
     (if receive_task c = Some Running
      then (loop_finish fin (c\<lparr>websocket := Some Closed\<rparr>), ws) else (c, ws))"
| "step (SendCommand command_type kwargs) (c, ws) =
     suspend Plain command_type (send_command command_type kwargs c) ws"
| "step (SubscribeEvents event_type callback) (c, ws) =
     suspend (Subscriber event_type callback) ''subscribe_events''
       (subscribe_events_send event_type c) ws"
| "step (Expire n) (c, ws) =
     (if n < length ws
      then (case expire (ws ! n) c of None \<Rightarrow> (c, ws) | Some (w, c') \<Rightarrow> (c', ws[n := w]))
      else (c, ws))"
| "step (Wake n) (c, ws) =
     (if n < length ws
      then (case resume (ws ! n) c of
              None \<Rightarrow> (c, ws)
            | Some c' \<Rightarrow> (c', take n ws @ drop (Suc n) ws))
      else (c, ws))"
| "step (CancelCaller n) (c, ws) =
     (if n < length ws
      then (wait_for_cancelled (snd (snd (snd (ws ! n)))) c, take n ws @ drop (Suc n) ws)
      else (c, ws))"
| "step Ping (c, ws) = (snd (ping c), ws)"
| "step Close (c, ws) = (close c, ws)"

definition run :: "event list \<Rightarrow> client \<times> waiting_call list \<Rightarrow> client \<times> waiting_call list" where
  "run es s = fold step es s"

subsection \<open>A concrete client\<close>

text \<open>
  A handshake that succeeds, and the client it leaves when \<^verbatim>\<open>connect\<close> is called on
  a new object.
\<close>

definition good_handshake :: handshake where
  "good_handshake = \<lparr> ws_connect = None,
     first_recv = Inr (Decoded (JObj [(''type'', JStr ''auth_required'')])),
     auth_send = None,
     second_recv = Inr (Decoded (JObj [(''type'', JStr ''auth_ok'')])) \<rparr>"

definition example_client :: client where
  "example_client = snd (connect good_handshake (init ''ws://hass.local:8123/api/websocket'' ''secret''))"

text \<open>The same client after \<^verbatim>\<open>send_command("get_states")\<close> has sent its message and waits.\<close>

definition waiting_client :: client where
  "waiting_client = snd (send_command ''get_states'' [] example_client)"

text \<open>A handshake in which the server answers the credential with \<^verbatim>\<open>auth_invalid\<close>.\<close>

definition rejected_handshake :: handshake where
  "rejected_handshake =
     good_handshake \<lparr> second_recv := Inr (Decoded (JObj [(''type'', JStr ''auth_invalid'')])) \<rparr>"

text \<open>
  The message received is a JSON object whose \<^verbatim>\<open>type\<close> is \<open>t\<close>: the test that
  \<^verbatim>\<open>connect\<close> makes on both messages of the handshake.
\<close>

definition has_type :: "string \<Rightarrow> py_error + frame \<Rightarrow> bool" where
  "has_type t r =
     (case r of Inr (Decoded (JObj d)) \<Rightarrow> dict_get d ''type'' = JStr t | _ \<Rightarrow> False)"

text \<open>A callback that always raises.\<close>

definition failing_callback :: callback where
  "failing_callback = Callback False (\<lambda>data. Some (OtherException ''boom''))"

text \<open>The successful answer of the server to command 1.\<close>

definition result_frame :: "(string \<times> json) list" where
  "result_frame = [(''id'', JInt 1), (''type'', JStr ''result''), (''success'', JBool True),
                   (''result'', JArr [])]"

text \<open>
  The connected client after \<^verbatim>\<open>subscribe_events("state_changed", callback)\<close> has sent
  its command, after the receive loop has then read the answer, and after
  \<^verbatim>\<open>subscribe_events\<close> has gone on to register the callback, which it does under 2.
\<close>

definition subscribing_client :: client where
  "subscribing_client = snd (subscribe_events_send (Some ''state_changed'') example_client)"

definition confirmed_client :: client where
  "confirmed_client = loop_iteration (Decoded (JObj result_frame)) subscribing_client"

definition subscribed_client :: client where
  "subscribed_client =
     snd (subscribe_events_register (Some ''state_changed'') (Some failing_callback) confirmed_client)"

definition subscribe_run :: "event list" where
  "subscribe_run =
     [Connect good_handshake, SubscribeEvents (Some ''state_changed'') (Some failing_callback),
      Recv (Decoded (JObj result_frame)), Wake 0]"

text \<open>
  Three event frames: for subscription 2, for the identifier 9 that nobody registered,
  and one whose identifier is the JSON array \<^verbatim>\<open>[9]\<close>.
\<close>

definition event_frame_2 :: "(string \<times> json) list" where
  "event_frame_2 = [(''type'', JStr ''event''), (''id'', JInt 2),
                    (''event'', JObj [(''x'', JInt 1)])]"

definition event_frame_9 :: "(string \<times> json) list" where
  "event_frame_9 = [(''type'', JStr ''event''), (''id'', JInt 9), (''event'', JNull)]"

definition event_frame_array :: "(string \<times> json) list" where
  "event_frame_array = [(''type'', JStr ''event''), (''id'', JArr [JInt 9]), (''event'', JNull)]"

subsection \<open>Predicates used in the statements\<close>

text \<open>
  The task that the \<^verbatim>\<open>event\<close> branch of the loop starts for the frame \<open>d\<close>: none when
  the identifier of the frame is not a key of \<open>event_callbacks\<close>.
\<close>

definition spawned :: "client \<Rightarrow> (string \<times> json) list \<Rightarrow> (callback \<times> json) list" where
  "spawned c d =
     (case dict_lookup (event_callbacks c) (dict_get d ''id'') of
        None \<Rightarrow> []
      | Some cb \<Rightarrow> [(cb, dict_get d ''event'')])"





text \<open>
  \<open>settled fs fs'\<close>: every future that is done in the heap \<open>fs\<close> is still there, with the
  same outcome, in the heap \<open>fs'\<close>.
\<close>

definition settled :: "future list \<Rightarrow> future list \<Rightarrow> bool" where
  "settled fs fs' \<longleftrightarrow> length fs \<le> length fs' \<and> (\<forall>r < length fs. is_done (fs ! r) \<longrightarrow> fs' ! r = fs ! r)"

section \<open>Properties\<close>

subsection \<open>Basic facts about the methods\<close>

lemma example_client_eq:
  "example_client =
     \<lparr> url = ''ws://hass.local:8123/api/websocket'', token = ''secret'', state = CONNECTED,
       websocket = Some Open, message_id = 0, pending_requests = [], event_callbacks = [],
       receive_task = Some Running, futures = [],
       sent = [JObj [(''type'', JStr ''auth''), (''access_token'', JStr ''secret'')]],
       tasks = [],
       logged = [(INFO, ''Connecting to '', ArgStr ''ws://hass.local:8123/api/websocket''),
                 (INFO, ''WebSocket connection established'', ArgNone),
                 (INFO, ''Received auth challenge'', ArgNone),
                 (INFO, ''Authentication successful'', ArgNone)] \<rparr>"
  by (simp add: example_client_def good_handshake_def connect_def connect_authenticate_def
      init_def logger_def recv_json_def get_type_def dict_get_def Let_def)

lemma state_close: "state (close c) = DISCONNECTED"
  by (simp add: close_def logger_def Let_def)

lemma waiting_client_eq:
  "waiting_client = example_client
     \<lparr> message_id := 1, pending_requests := [(1, 0)], futures := [Pending],
       sent := sent example_client @ [JObj [(''id'', JInt 1), (''type'', JStr ''get_states'')]],
       logged := logged example_client @
         [(DEBUG, ''Sending: '', ArgJson (JObj [(''id'', JInt 1), (''type'', JStr ''get_states'')]))] \<rparr>"
  by (simp add: waiting_client_def example_client_eq send_command_def next_id_def new_future_def
      build_message_def ws_send_def logger_def Let_def)


lemma map_of_delete_same: "map_of (AList.delete k al) k = None"
  by (simp add: AList.delete_conv')

subsection \<open>Commands on a client that is not connected\<close>

text \<open>
  Claim C4. In every connection state other than \<open>CONNECTED\<close>, \<^verbatim>\<open>send_command\<close> raises
  \<^verbatim>\<open>Exception("Not connected")\<close> at once and leaves the whole object as it was: no
  identifier is taken from the counter, no future is registered, nothing is sent, and
  no caller is left suspended. After \<^verbatim>\<open>close\<close> the state is \<open>DISCONNECTED\<close>, so this holds
  for every \<^verbatim>\<open>send_command\<close> that follows a \<^verbatim>\<open>close\<close>.
\<close>

theorem send_command_not_connected:
  "(state c \<noteq> CONNECTED \<longrightarrow>
      send_command command_type kwargs c = (Inl (Exception ''Not connected'' None), c)
      \<and> step (SendCommand command_type kwargs) (c, ws) = (c, ws))
   \<and> state (close c) = DISCONNECTED
   \<and> send_command command_type kwargs (close c) = (Inl (Exception ''Not connected'' None), close c)
   \<and> step (SendCommand command_type kwargs) (step Close (c, ws)) = step Close (c, ws)"
  by (simp add: send_command_def suspend_def state_close)

theorem send_command_not_connected_witness:
  "state (init ''ws://h'' ''t'') \<noteq> CONNECTED
   \<and> send_command ''get_states'' [] (init ''ws://h'' ''t'')
       = (Inl (Exception ''Not connected'' None), init ''ws://h'' ''t'')
   \<and> send_command ''get_states'' [] (close example_client)
       = (Inl (Exception ''Not connected'' None), close example_client)"
  using send_command_not_connected [of "init ''ws://h'' ''t''" "''get_states''" "[]" "[]"]
    send_command_not_connected [of example_client "''get_states''" "[]" "[]"]
  by (simp add: init_def)

subsection \<open>The handshake\<close>

lemma has_type_iff:
  "has_type t r \<longleftrightarrow>
     (case recv_json r of Inl e \<Rightarrow> False | Inr j \<Rightarrow> get_type j = Inr (JStr t))"
  by (auto simp: has_type_def recv_json_def get_type_def
      split: sum.splits frame.splits json.splits)

lemma connect_failed_not_True: "fst (connect_failed e c) \<noteq> Inr True"
  by (simp add: connect_failed_def)

lemma connect_failed_state:
  "fst (connect_failed e c) = Inr b \<Longrightarrow> \<not> b \<and> state (snd (connect_failed e c)) = DISCONNECTED"
  by (simp add: connect_failed_def logger_def split: if_splits)

lemma connect_authenticate_True:
  "fst (connect_authenticate env c) = Inr True \<longleftrightarrow>
     auth_send env = None \<and> has_type ''auth_ok'' (second_recv env)"
  by (auto simp: connect_authenticate_def has_type_iff connect_failed_not_True Let_def
      split: option.splits sum.splits)

lemma connect_authenticate_state:
  "fst (connect_authenticate env c) = Inr b \<Longrightarrow>
     state (snd (connect_authenticate env c)) = (if b then CONNECTED else DISCONNECTED)"
  by (auto simp: connect_authenticate_def Let_def logger_def dest: connect_failed_state
      split: option.splits sum.splits if_splits)

lemma connect_state:
  "fst (connect env c) = Inr b \<Longrightarrow>
     state (snd (connect env c)) = (if b then CONNECTED else DISCONNECTED)"
  by (auto simp: connect_def Let_def dest: connect_failed_state connect_authenticate_state
      split: option.splits sum.splits if_splits)

text \<open>
  Claim C8. \<^verbatim>\<open>connect\<close> returns \<^verbatim>\<open>True\<close> exactly when the connection is made, the
  first message received is an \<^verbatim>\<open>auth_required\<close> object, the credential is sent, and the
  message received after it is an \<^verbatim>\<open>auth_ok\<close> object; the state is then \<open>CONNECTED\<close>.
  Whenever it returns \<^verbatim>\<open>False\<close> the state is \<open>DISCONNECTED\<close>, and it returns \<^verbatim>\<open>False\<close>
  when the first message is anything but an auth challenge and when the answer to the
  credential is \<^verbatim>\<open>auth_invalid\<close>.
\<close>

theorem connect_returns:
  "(fst (connect env c) = Inr True \<longleftrightarrow>
      ws_connect env = None \<and> has_type ''auth_required'' (first_recv env)
      \<and> auth_send env = None \<and> has_type ''auth_ok'' (second_recv env))
   \<and> (fst (connect env c) = Inr True \<longrightarrow> state (snd (connect env c)) = CONNECTED)
   \<and> (fst (connect env c) = Inr False \<longrightarrow> state (snd (connect env c)) = DISCONNECTED)
   \<and> (ws_connect env = None \<and> first_recv env = Inr m \<and> \<not> has_type ''auth_required'' (Inr m) \<longrightarrow>
        fst (connect env c) = Inr False)
   \<and> (ws_connect env = None \<and> has_type ''auth_required'' (first_recv env) \<and> auth_send env = None
        \<and> has_type ''auth_invalid'' (second_recv env) \<longrightarrow>
        fst (connect env c) = Inr False)"
proof -
  have t: "fst (connect env c) = Inr True \<longleftrightarrow>
      ws_connect env = None \<and> has_type ''auth_required'' (first_recv env)
      \<and> auth_send env = None \<and> has_type ''auth_ok'' (second_recv env)"
    by (auto simp: connect_def has_type_iff connect_failed_not_True connect_authenticate_True
        Let_def split: option.splits sum.splits)
  have s: "\<And>b. fst (connect env c) = Inr b \<Longrightarrow>
             state (snd (connect env c)) = (if b then CONNECTED else DISCONNECTED)"
    by (rule connect_state)
  have f1: "ws_connect env = None \<and> first_recv env = Inr m
        \<and> \<not> has_type ''auth_required'' (Inr m) \<longrightarrow> fst (connect env c) = Inr False"
    by (auto simp: connect_def has_type_iff connect_failed_def recv_json_def get_type_def Let_def
        split: option.splits sum.splits frame.splits json.splits)
  have f2: "ws_connect env = None \<and> has_type ''auth_required'' (first_recv env)
        \<and> auth_send env = None \<and> has_type ''auth_invalid'' (second_recv env) \<longrightarrow>
        fst (connect env c) = Inr False"
    by (auto simp: connect_def connect_authenticate_def has_type_iff connect_failed_def Let_def
        split: option.splits sum.splits)
  show ?thesis using t s [of True] s [of False] f1 f2 by simp
qed

theorem connect_returns_witness:
  "fst (connect good_handshake (init ''ws://h'' ''t'')) = Inr True
   \<and> state (snd (connect good_handshake (init ''ws://h'' ''t''))) = CONNECTED
   \<and> ws_connect rejected_handshake = None
   \<and> has_type ''auth_required'' (first_recv rejected_handshake)
   \<and> auth_send rejected_handshake = None
   \<and> has_type ''auth_invalid'' (second_recv rejected_handshake)
   \<and> fst (connect rejected_handshake (init ''ws://h'' ''t'')) = Inr False
   \<and> state (snd (connect rejected_handshake (init ''ws://h'' ''t''))) = DISCONNECTED
   \<and> first_recv (good_handshake\<lparr>first_recv := Inr Malformed\<rparr>) = Inr Malformed
   \<and> \<not> has_type ''auth_required'' (Inr Malformed)
   \<and> fst (connect (good_handshake\<lparr>first_recv := Inr Malformed\<rparr>) (init ''ws://h'' ''t'')) = Inr False
   \<and> state (snd (connect (good_handshake\<lparr>first_recv := Inr Malformed\<rparr>) (init ''ws://h'' ''t'')))
       = DISCONNECTED"
  using connect_returns [of good_handshake "init ''ws://h'' ''t''" Malformed]
    connect_returns [of rejected_handshake "init ''ws://h'' ''t''" Malformed]
    connect_returns [of "good_handshake\<lparr>first_recv := Inr Malformed\<rparr>" "init ''ws://h'' ''t''" Malformed]
  by (simp add: good_handshake_def rejected_handshake_def has_type_def dict_get_def)

subsection \<open>Frames that cannot be decoded\<close>

text \<open>
  Claim C1, as the code has it. A frame that is not well-formed JSON makes
  \<^verbatim>\<open>json.loads\<close> raise inside the \<^verbatim>\<open>try\<close> that encloses the whole loop: the error is
  logged, the state becomes \<open>DISCONNECTED\<close> and the receive task ends, so the frames
  after it are not processed. The pending requests, their futures, the registered
  callbacks and the callback tasks are left as they were.
\<close>

theorem decode_failure_ends_loop:
  "receive_loop (Malformed # ms) fin c
     = (logger ERROR ''Receive loop error: '' (ArgError JSONDecodeError) c)
         \<lparr>state := DISCONNECTED, receive_task := Some Finished\<rparr>
   \<and> loop_iteration Malformed c
     = (logger ERROR ''Receive loop error: '' (ArgError JSONDecodeError) c)
         \<lparr>state := DISCONNECTED, receive_task := Some Finished\<rparr>
   \<and> pending_requests (receive_loop (Malformed # ms) fin c) = pending_requests c
   \<and> event_callbacks (receive_loop (Malformed # ms) fin c) = event_callbacks c
   \<and> futures (receive_loop (Malformed # ms) fin c) = futures c
   \<and> tasks (receive_loop (Malformed # ms) fin c) = tasks c"
  by (simp add: process_message_def loop_finish_def loop_except_def loop_iteration_def logger_def)

text \<open>
  The claim as it was stated fails: on the connected client a malformed frame followed
  by a \<^verbatim>\<open>pong\<close> leaves the state \<open>DISCONNECTED\<close>, the \<^verbatim>\<open>pong\<close> is never read, and the
  receive task has ended.
\<close>

theorem decode_failure_counterexample:
  "state example_client = CONNECTED
   \<and> state (receive_loop [Malformed, Decoded (JObj [(''type'', JStr ''pong'')])] Exhausted
        example_client) = DISCONNECTED
   \<and> receive_loop [Malformed, Decoded (JObj [(''type'', JStr ''pong'')])] Exhausted example_client
      = receive_loop [Malformed] Exhausted example_client
   \<and> receive_task (fst (step (Recv Malformed) (example_client, []))) = Some Finished"
  by (simp add: example_client_eq process_message_def loop_finish_def loop_except_def
      loop_iteration_def logger_def)

subsection \<open>Timeouts\<close>

text \<open>
  Claim C3. When the 30 seconds of a \<^verbatim>\<open>send_command\<close> call pass while its future is
  still pending (no response has arrived), \<^verbatim>\<open>wait_for\<close> cancels the future and leaves
  the table alone; whenever the call is resumed after that, in whatever state \<open>c2\<close> the
  client then is, it raises \<^verbatim>\<open>Exception("Command ... timed out")\<close> and its identifier
  is no longer in the correlation table, the other entries being as before. A result
  frame for that identifier arriving after this cleanup raises nothing and changes
  nothing but the debug log.
\<close>

theorem send_command_timeout:
  assumes "future_at c fut = Some Pending"
  shows "future_at (wait_for_timeout fut c) fut = Some Cancelled
       \<and> pending_requests (wait_for_timeout fut c) = pending_requests c
       \<and> (n < length ws \<and> ws ! n = (who, command_type, msg_id, fut) \<and> who \<noteq> TimedOut \<longrightarrow>
            step (Expire n) (c, ws)
              = (wait_for_timeout fut c, ws[n := (TimedOut, command_type, msg_id, fut)]))
       \<and> (n < length ws2 \<and> ws2 ! n = (TimedOut, command_type, msg_id, fut) \<longrightarrow>
            step (Wake n) (c2, ws2)
              = (snd (send_command_timed_out command_type msg_id c2), take n ws2 @ drop (Suc n) ws2))
       \<and> fst (send_command_timed_out command_type msg_id c2)
           = Inl (Exception (''Command '' @ command_type @ '' timed out'') None)
       \<and> map_of (pending_requests (snd (send_command_timed_out command_type msg_id c2))) msg_id = None
       \<and> (\<forall>k. k \<noteq> msg_id \<longrightarrow>
             map_of (pending_requests (snd (send_command_timed_out command_type msg_id c2))) k
               = map_of (pending_requests c2) k)
       \<and> (dict_get d ''type'' = JStr ''result'' \<and> hashable (dict_get d ''id'')
            \<and> as_int_key (dict_get d ''id'') = Some msg_id \<longrightarrow>
            process_message (Decoded (JObj d)) (snd (send_command_timed_out command_type msg_id c2))
              = (None, logger DEBUG ''Received: '' (ArgJson (JObj d))
                         (snd (send_command_timed_out command_type msg_id c2))))"
proof -
  have a: "future_at (wait_for_timeout fut c) fut = Some Cancelled
       \<and> pending_requests (wait_for_timeout fut c) = pending_requests c"
    using assms by (simp add: wait_for_timeout_def cancel_future_def future_at_def split: if_splits)
  have b: "step (Expire n) (c, ws)
              = (wait_for_timeout fut c, ws[n := (TimedOut, command_type, msg_id, fut)])"
    if "n < length ws" "ws ! n = (who, command_type, msg_id, fut)" "who \<noteq> TimedOut"
    using that assms by (simp add: expire_def)
  have w: "step (Wake n) (c2, ws2)
              = (snd (send_command_timed_out command_type msg_id c2), take n ws2 @ drop (Suc n) ws2)"
    if "n < length ws2" "ws2 ! n = (TimedOut, command_type, msg_id, fut)"
    using that by (simp add: resume_def)
  have e: "fst (send_command_timed_out command_type msg_id c2)
           = Inl (Exception (''Command '' @ command_type @ '' timed out'') None)
       \<and> map_of (pending_requests (snd (send_command_timed_out command_type msg_id c2))) msg_id = None
       \<and> (\<forall>k. k \<noteq> msg_id \<longrightarrow>
             map_of (pending_requests (snd (send_command_timed_out command_type msg_id c2))) k
               = map_of (pending_requests c2) k)"
    by (simp add: send_command_timed_out_def map_of_delete_same)
  have l: "process_message (Decoded (JObj d)) (snd (send_command_timed_out command_type msg_id c2))
              = (None, logger DEBUG ''Received: '' (ArgJson (JObj d))
                         (snd (send_command_timed_out command_type msg_id c2)))"
    if "dict_get d ''type'' = JStr ''result''" "hashable (dict_get d ''id'')"
      "as_int_key (dict_get d ''id'') = Some msg_id"
    using that
    by (simp add: send_command_timed_out_def process_message_def handle_result_def
        dict_find_def dict_lookup_def logger_def Let_def map_of_delete_same)
  show ?thesis using a b w e l by blast
qed

theorem send_command_timeout_witness:
  "future_at waiting_client 0 = Some Pending
   \<and> step (Expire 0) (waiting_client, [(Plain, ''get_states'', 1, 0)])
       = (wait_for_timeout 0 waiting_client, [(TimedOut, ''get_states'', 1, 0)])
   \<and> future_at (wait_for_timeout 0 waiting_client) 0 = Some Cancelled
   \<and> pending_requests (wait_for_timeout 0 waiting_client) = [(1, 0)]
   \<and> step (Wake 0) (wait_for_timeout 0 waiting_client, [(TimedOut, ''get_states'', 1, 0)])
       = (snd (send_command_timed_out ''get_states'' 1 (wait_for_timeout 0 waiting_client)), [])
   \<and> fst (send_command_timed_out ''get_states'' 1 (wait_for_timeout 0 waiting_client))
       = Inl (Exception ''Command get_states timed out'' None)
   \<and> pending_requests (snd (send_command_timed_out ''get_states'' 1 (wait_for_timeout 0 waiting_client)))
       = []
   \<and> fst (process_message
            (Decoded (JObj [(''id'', JInt 1), (''type'', JStr ''result''), (''success'', JBool True)]))
            (snd (send_command_timed_out ''get_states'' 1 (wait_for_timeout 0 waiting_client)))) = None"
proof -
  have p: "future_at waiting_client 0 = Some Pending"
    by (simp add: waiting_client_eq future_at_def)
  have t: "pending_requests (wait_for_timeout 0 waiting_client) = [(1, 0)]"
    by (simp add: wait_for_timeout_def cancel_future_def waiting_client_eq)
  have q: "pending_requests waiting_client = [(1, 0)]"
    by (simp add: waiting_client_eq)
  show ?thesis
    using send_command_timeout [OF p, of 0 "[(Plain, ''get_states'', 1, 0)]" Plain "''get_states''" 1
        "[(TimedOut, ''get_states'', 1, 0)]" "wait_for_timeout 0 waiting_client"
        "[(''id'', JInt 1), (''type'', JStr ''result''), (''success'', JBool True)]"] p t
    by (simp add: dict_get_def send_command_timed_out_def q)
qed

subsection \<open>The end of the inbound stream\<close>

text \<open>
  Claim C2, evaluated on the client that waits for the answer to its command 1. When
  the iterator over the socket is exhausted, no \<^verbatim>\<open>except\<close> clause runs: the state is
  still \<open>CONNECTED\<close>. When it raises a connection error, the state becomes
  \<open>DISCONNECTED\<close>. In both cases the pending request stays in the table and its future
  stays pending. \<^verbatim>\<open>close\<close>, in contrast, cancels the future and clears the table.
\<close>

theorem stream_end_leaves_pending:
  "state waiting_client = CONNECTED \<and> pending_requests waiting_client = [(1, 0)]
   \<and> future_at waiting_client 0 = Some Pending
   \<and> state (fst (step (StreamEnd Exhausted) (waiting_client, [(Plain, ''get_states'', 1, 0)])))
       = CONNECTED
   \<and> pending_requests (fst (step (StreamEnd Exhausted) (waiting_client, [(Plain, ''get_states'', 1, 0)])))
       = [(1, 0)]
   \<and> future_at (fst (step (StreamEnd Exhausted) (waiting_client, [(Plain, ''get_states'', 1, 0)]))) 0
       = Some Pending
   \<and> state (receive_loop [] (Raised (TransportError ''ConnectionClosedError'')) waiting_client)
       = DISCONNECTED
   \<and> pending_requests (receive_loop [] (Raised (TransportError ''ConnectionClosedError'')) waiting_client)
       = [(1, 0)]
   \<and> future_at (receive_loop [] (Raised (TransportError ''ConnectionClosedError'')) waiting_client) 0
       = Some Pending
   \<and> pending_requests (close waiting_client) = []
   \<and> future_at (close waiting_client) 0 = Some Cancelled"
  by (simp add: waiting_client_eq example_client_eq future_at_def loop_finish_def loop_except_def
      logger_def close_def cancel_future_def Let_def)

subsection \<open>Keepalive\<close>

text \<open>
  Claim C10. \<^verbatim>\<open>ping\<close> takes the next identifier from the counter and, on an open
  socket, sends the frame \<^verbatim>\<open>{"id": msg_id, "type": "ping"}\<close> and returns; it registers no
  future, so the correlation table, the futures and the subscription registry are
  unchanged, as is the state, and no caller is left suspended. An inbound \<^verbatim>\<open>pong\<close>
  object is only written to the debug log: the loop goes on and nothing else changes.
\<close>

theorem ping_effect:
  "message_id (snd (ping c)) = message_id c + 1
   \<and> pending_requests (snd (ping c)) = pending_requests c
   \<and> event_callbacks (snd (ping c)) = event_callbacks c
   \<and> futures (snd (ping c)) = futures c
   \<and> state (snd (ping c)) = state c
   \<and> step Ping (c, ws) = (snd (ping c), ws)
   \<and> (websocket c = Some Open \<longrightarrow>
        ping c = (None, c\<lparr>message_id := message_id c + 1,
                   sent := sent c @ [JObj [(''id'', JInt (message_id c + 1)), (''type'', JStr ''ping'')]]\<rparr>))
   \<and> (dict_get d ''type'' = JStr ''pong'' \<longrightarrow>
        process_message (Decoded (JObj d)) c = (None, logger DEBUG ''Received: '' (ArgJson (JObj d)) c)
        \<and> loop_iteration (Decoded (JObj d)) c
            = c\<lparr>logged := logged c @ [(DEBUG, ''Received: '', ArgJson (JObj d))]\<rparr>)"
  by (auto simp add: ping_def next_id_def ws_send_def process_message_def loop_iteration_def
      logger_def Let_def split: option.splits socket.splits)

theorem ping_effect_witness:
  "websocket example_client = Some Open
   \<and> dict_get [(''id'', JInt 1), (''type'', JStr ''pong'')] ''type'' = JStr ''pong''
   \<and> fst (ping example_client) = None
   \<and> message_id (snd (ping example_client)) = 1
   \<and> sent (snd (ping example_client))
       = sent example_client @ [JObj [(''id'', JInt 1), (''type'', JStr ''ping'')]]
   \<and> pending_requests (snd (ping example_client)) = []
   \<and> process_message (Decoded (JObj [(''id'', JInt 1), (''type'', JStr ''pong'')]))
        (snd (ping example_client))
       = (None, logger DEBUG ''Received: '' (ArgJson (JObj [(''id'', JInt 1), (''type'', JStr ''pong'')]))
                  (snd (ping example_client)))"
  using ping_effect [of example_client "[]" "[(''id'', JInt 1), (''type'', JStr ''pong'')]"]
    ping_effect [of "snd (ping example_client)" "[]" "[(''id'', JInt 1), (''type'', JStr ''pong'')]"]
  by (simp add: example_client_eq dict_get_def)

subsection \<open>What each method leaves unchanged\<close>

lemma logger_frame [simp]:
  "message_id (logger lv msg a c) = message_id c"
  "pending_requests (logger lv msg a c) = pending_requests c"
  "futures (logger lv msg a c) = futures c"
  "event_callbacks (logger lv msg a c) = event_callbacks c"
  "state (logger lv msg a c) = state c"
  "websocket (logger lv msg a c) = websocket c"
  "tasks (logger lv msg a c) = tasks c"
  "receive_task (logger lv msg a c) = receive_task c"
  by (simp_all add: logger_def)








lemma resolve_future_frame:
  "message_id (snd (resolve_future r v c)) = message_id c"
  "pending_requests (snd (resolve_future r v c)) = pending_requests c"
  "futures (snd (resolve_future r v c)) = futures c \<or> futures (snd (resolve_future r v c)) = (futures c)[r := v]"
  by (simp_all add: resolve_future_def)



lemma ws_send_frame:
  "message_id (snd (ws_send m c)) = message_id c"
  "pending_requests (snd (ws_send m c)) = pending_requests c"
  "futures (snd (ws_send m c)) = futures c"
  by (simp_all add: ws_send_def split: option.splits socket.splits)



lemma future_at_Pending: "future_at c r = Some Pending \<longleftrightarrow> r < length (futures c) \<and> futures c ! r = Pending"
  by (simp add: future_at_def)

subsection \<open>The invariant of the correlation table\<close>


































subsection \<open>The counter never decreases\<close>











subsection \<open>A future that is done stays as it is\<close>

lemma settled_refl [simp]: "settled fs fs"
  by (simp add: settled_def)


lemma settled_append [simp]: "settled fs (fs @ xs)"
  by (simp add: settled_def nth_append)















subsection \<open>Result frames\<close>





subsection \<open>The concrete runs\<close>








lemma subscribe_example:
  "subscribe_events_send (Some ''state_changed'') example_client = (Inr (1, 0), subscribing_client)"
  by (simp add: subscribing_client_def subscribe_events_send_def subscribe_command_def
      example_client_eq send_command_def next_id_def new_future_def
      build_message_def ws_send_def logger_def Let_def)

lemma subscribing_client_eq:
  "subscribing_client = example_client
     \<lparr> message_id := 1, pending_requests := [(1, 0)], futures := [Pending],
       sent := sent example_client @
         [JObj [(''id'', JInt 1), (''type'', JStr ''subscribe_events''),
                (''event_type'', JStr ''state_changed'')]],
       logged := logged example_client @
         [(DEBUG, ''Sending: '', ArgJson (JObj [(''id'', JInt 1), (''type'', JStr ''subscribe_events''),
                (''event_type'', JStr ''state_changed'')]))] \<rparr>"
  by (simp add: subscribing_client_def subscribe_events_send_def subscribe_command_def
      example_client_eq send_command_def next_id_def new_future_def
      build_message_def ws_send_def logger_def Let_def)

lemma confirmed_client_fields:
  "message_id confirmed_client = 1" "futures confirmed_client = [Result (JArr [])]"
  "pending_requests confirmed_client = []" "event_callbacks confirmed_client = []"
  "state confirmed_client = CONNECTED" "tasks confirmed_client = []"
  by (simp_all add: confirmed_client_def subscribing_client_eq example_client_eq result_frame_def
      loop_iteration_def process_message_def handle_result_def dict_find_def dict_lookup_def
      dict_pop_def dict_get_def resolve_future_def future_at_def logger_def Let_def)

lemma run_confirm:
  "run (map Recv [Decoded (JObj result_frame)])
       (subscribing_client, [(Subscriber (Some ''state_changed'') (Some failing_callback), ''subscribe_events'', 1, 0)])
     = (confirmed_client, [(Subscriber (Some ''state_changed'') (Some failing_callback), ''subscribe_events'', 1, 0)])"
  by (simp add: run_def confirmed_client_def subscribing_client_eq example_client_eq)

lemma finish_example:
  "subscribe_events_finish (Some ''state_changed'') (Some failing_callback) 1 0 confirmed_client
     = Some (Inr 2, subscribed_client)"
  by (simp add: subscribe_events_finish_def send_command_finish_def await_future_def future_at_def
      confirmed_client_fields subscribed_client_def subscribe_events_register_def next_id_def Let_def)

lemma subscribed_client_fields:
  "event_callbacks subscribed_client = [(2, failing_callback)]"
  "pending_requests subscribed_client = []" "state subscribed_client = CONNECTED"
  "tasks subscribed_client = []" "message_id subscribed_client = 2"
  by (simp_all add: subscribed_client_def subscribe_events_register_def next_id_def logger_def
      confirmed_client_fields Let_def)

lemma run_subscribe:
  "run subscribe_run (init ''ws://hass.local:8123/api/websocket'' ''secret'', [])
     = (subscribed_client, [])"
proof -
  have 1: "step (Connect good_handshake) (init ''ws://hass.local:8123/api/websocket'' ''secret'', [])
          = (example_client, [])"
    by (simp add: example_client_def init_def)
  have 2: "step (SubscribeEvents (Some ''state_changed'') (Some failing_callback)) (example_client, [])
          = (subscribing_client,
             [(Subscriber (Some ''state_changed'') (Some failing_callback), ''subscribe_events'', 1, 0)])"
    by (simp add: subscribe_example suspend_def)
  have 3: "step (Recv (Decoded (JObj result_frame)))
             (subscribing_client,
              [(Subscriber (Some ''state_changed'') (Some failing_callback), ''subscribe_events'', 1, 0)])
          = (confirmed_client,
             [(Subscriber (Some ''state_changed'') (Some failing_callback), ''subscribe_events'', 1, 0)])"
    using run_confirm by (simp add: run_def)
  have 4: "step (Wake 0)
             (confirmed_client,
              [(Subscriber (Some ''state_changed'') (Some failing_callback), ''subscribe_events'', 1, 0)])
          = (subscribed_client, [])"
    by (simp add: resume_def finish_example)
  show ?thesis by (simp only: run_def subscribe_run_def List.fold_simps 1 2 3 4)
qed

subsection \<open>Identifiers\<close>




subsection \<open>Subscriptions\<close>



subsection \<open>Events and callbacks\<close>

lemma event_frame:
  assumes "dict_get d ''type'' = JStr ''event''" "hashable (dict_get d ''id'')"
  shows "process_message (Decoded (JObj d)) c =
           (None, c\<lparr>tasks := tasks c @ spawned c d,
                    logged := logged c @ [(DEBUG, ''Received: '', ArgJson (JObj d))]\<rparr>)"
  using assms
  by (simp add: process_message_def handle_event_def dict_find_def spawned_def logger_def Let_def
      split: option.splits)

lemma event_frames:
  assumes "\<forall>d \<in> set ds. dict_get d ''type'' = JStr ''event'' \<and> hashable (dict_get d ''id'')"
  shows "receive_loop (map (\<lambda>d. Decoded (JObj d)) ds) fin c =
           loop_finish fin
             (c\<lparr>tasks := tasks c @ concat (map (spawned c) ds),
                logged := logged c @ map (\<lambda>d. (DEBUG, ''Received: '', ArgJson (JObj d))) ds\<rparr>)"
  using assms
proof (induction ds arbitrary: c)
  case Nil
  show ?case by simp
next
  case (Cons d ds)
  let ?c1 = "c\<lparr>tasks := tasks c @ spawned c d,
               logged := logged c @ [(DEBUG, ''Received: '', ArgJson (JObj d))]\<rparr>"
  have p: "process_message (Decoded (JObj d)) c = (None, ?c1)"
    using Cons.prems by (simp add: event_frame)
  have sp: "spawned ?c1 = spawned c" by (rule ext) (simp add: spawned_def)
  have "receive_loop (map (\<lambda>d. Decoded (JObj d)) (d # ds)) fin c
          = receive_loop (map (\<lambda>d. Decoded (JObj d)) ds) fin ?c1"
    by (simp add: p)
  also have "\<dots> = loop_finish fin
             (?c1\<lparr>tasks := tasks ?c1 @ concat (map (spawned ?c1) ds),
                logged := logged ?c1 @ map (\<lambda>d. (DEBUG, ''Received: '', ArgJson (JObj d))) ds\<rparr>)"
    using Cons.prems by (intro Cons.IH) simp
  finally show ?case by (simp add: sp)
qed

text \<open>
  Claim C9, as the code has it. On a stream of event frames whose identifiers are
  hashable (numbers, booleans, strings, \<^verbatim>\<open>null\<close> or absent), the loop reads every frame
  to the end of the stream: for each frame with a registered identifier it starts one
  callback task, in the order of arrival; a frame whose identifier is not registered
  starts none. Nothing but the tasks and the debug log changes, whatever the callbacks
  do. The task itself, \<^verbatim>\<open>_safe_callback\<close>, returns normally when the callback raises an
  \<^verbatim>\<open>Exception\<close>, and changes nothing of the client but the log, where it records the
  error.
\<close>

theorem callback_errors_contained:
  assumes "\<forall>d \<in> set ds. dict_get d ''type'' = JStr ''event'' \<and> hashable (dict_get d ''id'')"
  shows "receive_loop (map (\<lambda>d. Decoded (JObj d)) ds) fin c =
           loop_finish fin
             (c\<lparr>tasks := tasks c @ concat (map (spawned c) ds),
                logged := logged c @ map (\<lambda>d. (DEBUG, ''Received: '', ArgJson (JObj d))) ds\<rparr>)
       \<and> (\<forall>d \<in> set ds. dict_lookup (event_callbacks c) (dict_get d ''id'') = None \<longrightarrow> spawned c d = [])
       \<and> (call cb data = None \<longrightarrow> safe_callback cb data c = (None, c))
       \<and> (call cb data = Some e \<and> is_Exception e \<longrightarrow>
            safe_callback cb data c = (None, logger ERROR ''Callback error: '' (ArgError e) c))
       \<and> snd (safe_callback cb data c) = c\<lparr>logged := logged (snd (safe_callback cb data c))\<rparr>"
  using event_frames [OF assms, of fin c]
  by (auto simp: safe_callback_def spawned_def logger_def split: option.splits)

theorem callback_errors_contained_witness:
  "dict_get event_frame_2 ''type'' = JStr ''event'' \<and> hashable (dict_get event_frame_2 ''id'')
   \<and> dict_get event_frame_9 ''type'' = JStr ''event'' \<and> hashable (dict_get event_frame_9 ''id'')
   \<and> dict_lookup (event_callbacks subscribed_client) (dict_get event_frame_9 ''id'') = None
   \<and> tasks (receive_loop (map (\<lambda>d. Decoded (JObj d)) [event_frame_2, event_frame_9, event_frame_2])
        Exhausted subscribed_client)
       = [(failing_callback, JObj [(''x'', JInt 1)]), (failing_callback, JObj [(''x'', JInt 1)])]
   \<and> state (receive_loop (map (\<lambda>d. Decoded (JObj d)) [event_frame_2, event_frame_9, event_frame_2])
        Exhausted subscribed_client) = CONNECTED
   \<and> call failing_callback (JObj [(''x'', JInt 1)]) = Some (OtherException ''boom'')
   \<and> is_Exception (OtherException ''boom'')
   \<and> safe_callback failing_callback (JObj [(''x'', JInt 1)]) subscribed_client
       = (None, logger ERROR ''Callback error: '' (ArgError (OtherException ''boom'')) subscribed_client)"
proof -
  have h: "\<forall>d \<in> set [event_frame_2, event_frame_9, event_frame_2].
       dict_get d ''type'' = JStr ''event'' \<and> hashable (dict_get d ''id'')"
    by (simp add: event_frame_2_def event_frame_9_def dict_get_def)
  have s: "spawned subscribed_client event_frame_2 = [(failing_callback, JObj [(''x'', JInt 1)])]"
    "spawned subscribed_client event_frame_9 = []"
    "dict_lookup (event_callbacks subscribed_client) (dict_get event_frame_9 ''id'') = None"
    by (simp_all add: spawned_def subscribed_client_fields event_frame_2_def event_frame_9_def
        dict_get_def dict_lookup_def)
  have c: "call failing_callback (JObj [(''x'', JInt 1)]) = Some (OtherException ''boom'')"
    by (simp add: failing_callback_def)
  show ?thesis
    using callback_errors_contained [OF h, of Exhausted subscribed_client failing_callback
        "JObj [(''x'', JInt 1)]" "OtherException ''boom''"] h s c
    by (simp add: loop_finish_def subscribed_client_fields)
qed

text \<open>
  Claim C9 as the specification states it fails on an identifier that cannot be
  hashed. The client has connected and subscribed with a callback, which is registered
  under 2. An event frame with the identifier \<^verbatim>\<open>[9]\<close>, which is not registered, makes
  the test \<^verbatim>\<open>sub_id in self._event_callbacks\<close> raise \<^verbatim>\<open>TypeError\<close> inside the loop:
  the loop ends with the state \<^verbatim>\<open>DISCONNECTED\<close>, and the event for subscription 2
  that follows is not delivered, as it is when it arrives alone.
\<close>

theorem unhashable_event_counterexample:
  "run subscribe_run (init ''ws://hass.local:8123/api/websocket'' ''secret'', [])
     = (subscribed_client, [])
   \<and> event_callbacks subscribed_client = [(2, failing_callback)]
   \<and> dict_get event_frame_array ''type'' = JStr ''event''
   \<and> dict_get event_frame_array ''id'' = JArr [JInt 9]
   \<and> fst (process_message (Decoded (JObj event_frame_array)) subscribed_client) = Some TypeError
   \<and> state (receive_loop [Decoded (JObj event_frame_array), Decoded (JObj event_frame_2)]
        Exhausted subscribed_client) = DISCONNECTED
   \<and> tasks (receive_loop [Decoded (JObj event_frame_array), Decoded (JObj event_frame_2)]
        Exhausted subscribed_client) = []
   \<and> tasks (receive_loop [Decoded (JObj event_frame_2)] Exhausted subscribed_client)
       = [(failing_callback, JObj [(''x'', JInt 1)])]"
proof -
  have a: "process_message (Decoded (JObj event_frame_array)) subscribed_client
             = (Some TypeError,
                logger DEBUG ''Received: '' (ArgJson (JObj event_frame_array)) subscribed_client)"
    by (simp add: process_message_def handle_event_def dict_find_def event_frame_array_def
        dict_get_def logger_def Let_def)
  have b: "process_message (Decoded (JObj event_frame_2)) subscribed_client
             = (None, subscribed_client
                  \<lparr>tasks := [(failing_callback, JObj [(''x'', JInt 1)])],
                   logged := logged subscribed_client @
                     [(DEBUG, ''Received: '', ArgJson (JObj event_frame_2))]\<rparr>)"
    by (simp add: process_message_def handle_event_def dict_find_def dict_lookup_def
        event_frame_2_def dict_get_def logger_def Let_def subscribed_client_fields)
  have d: "dict_get event_frame_array ''type'' = JStr ''event''"
    "dict_get event_frame_array ''id'' = JArr [JInt 9]"
    by (simp_all add: event_frame_array_def dict_get_def)
  show ?thesis
    by (simp add: run_subscribe subscribed_client_fields a b d loop_finish_def loop_except_def
        logger_def)
qed

end
